theory Spec2Isabelle
  imports Complex_Main
begin

section \<open>Keystroke-dynamics authentication: the model of keystroke\_auth.py\<close>

text \<open>
  Timestamps and features are Python floats, modelled as real numbers. A score or a
  threshold is such a number or \<^verbatim>\<open>float('inf')\<close>, which \<^verbatim>\<open>compare_features\<close>
  returns and which a caller may pass as a threshold. A feature vector is a list of reals,
  Python's \<^verbatim>\<open>None\<close> in the place of a vector is \<open>None\<close> of an option type, and
  an exception that leaves a function is \<open>Inl\<close> of a sum type.
\<close>

subsection \<open>Constants and data\<close>

definition PROFILE_FILE :: string where
  "PROFILE_FILE = ''profiles.json''"

definition PASSWORD :: string where
  "PASSWORD = ''secret''"

datatype error = StatisticsError | TypeError | AttributeError | JSONDecodeError
  | UnicodeDecodeError | OSError

type_synonym features = "real list"

text \<open>What one call of a recorder returns: \<^verbatim>\<open>typed, press_times, release_times\<close>.\<close>

record sample =
  typed :: string
  press_times :: "real list"
  release_times :: "real list"

subsection \<open>statistics.mean\<close>

text \<open>
  \<^verbatim>\<open>statistics.mean\<close> raises \<^verbatim>\<open>StatisticsError\<close> on an empty sequence; otherwise it
  computes the exact sum and the exact quotient by the number of data points (and rounds
  that once to a float, which the model leaves out).
\<close>

definition mean :: "real list \<Rightarrow> error + real" where
  "mean data = (if data = [] then Inl StatisticsError
                else Inr (sum_list data / real (length data)))"

subsection \<open>extract\_features\<close>

text \<open>
  \<^verbatim>\<open>
  def extract_features(typed, press_times, release_times):
      if typed != PASSWORD:
          return None
      n = len(PASSWORD)
      if len(press_times) < n or len(release_times) < n:
          return None
      dwell = [release_times[i] - press_times[i] for i in range(n)]
      flight = [press_times[i] - press_times[i-1] for i in range(1, n)]
      return dwell + flight
  \<close>
  Every index read lies below \<open>n\<close>, hence inside both lists once the length test has
  passed, and \<open>i - 1\<close> is never negative since \<open>i\<close> starts at 1.
\<close>

definition extract_features :: "string \<Rightarrow> real list \<Rightarrow> real list \<Rightarrow> features option" where
  "extract_features ty press rel =
     (if ty \<noteq> PASSWORD then None
      else let n = length PASSWORD in
        if length press < n \<or> length rel < n then None
        else let dwell = map (\<lambda>i. rel ! i - press ! i) [0..<n];
                 flight = map (\<lambda>i. press ! i - press ! (i - 1)) [1..<n]
             in Some (dwell @ flight))"

text \<open>
  The callers take a recording apart and pass its three parts:
  \<^verbatim>\<open>features = extract_features(typed, press, rel)\<close>.
\<close>

abbreviation features_of :: "sample \<Rightarrow> features option" where
  "features_of s \<equiv> extract_features (typed s) (press_times s) (release_times s)"

subsection \<open>compare\_features and the decision\<close>

text \<open>
  \<^verbatim>\<open>
  def compare_features(f1, f2):
      if f1 is None or f2 is None or len(f1) != len(f2):
          return float('inf')
      diffs = [abs(a-b) for a,b in zip(f1,f2)]
      return mean(diffs)
  \<close>
\<close>

datatype pyfloat = Finite real | Infinite

type_synonym score = pyfloat

definition compare_features :: "features option \<Rightarrow> features option \<Rightarrow> error + score" where
  "compare_features f1 f2 =
     (case (f1, f2) of
        (Some v1, Some v2) \<Rightarrow>
          if length v1 \<noteq> length v2 then Inr Infinite
          else (case mean (map (\<lambda>(a, b). \<bar>a - b\<bar>) (zip v1 v2)) of
                  Inl e \<Rightarrow> Inl e
                | Inr m \<Rightarrow> Inr (Finite m))
      | _ \<Rightarrow> Inr Infinite)"

text \<open>
  The test \<^verbatim>\<open>score <= threshold\<close> of \<^verbatim>\<open>interactive_test\<close> and \<^verbatim>\<open>run_demo\<close>.
  The threshold is a parameter of \<^verbatim>\<open>interactive_test\<close> and any float: Python has
  \<^verbatim>\<open>float('inf') <= float('inf')\<close> true. (A threshold that is \<^verbatim>\<open>-inf\<close> or not a
  number is above no score at all, and is left out.)
\<close>

fun score_le :: "score \<Rightarrow> pyfloat \<Rightarrow> bool" where
  "score_le (Finite s) (Finite t) = (s \<le> t)"
| "score_le (Finite s) Infinite = True"
| "score_le Infinite (Finite t) = False"
| "score_le Infinite Infinite = True"

datatype decision = ACCEPT | REJECT

text \<open>\<^verbatim>\<open>"ACCEPT" if score <= threshold else "REJECT"\<close>, as \<^verbatim>\<open>run_demo\<close> writes it.\<close>

definition decide :: "score \<Rightarrow> pyfloat \<Rightarrow> decision" where
  "decide s t = (if score_le s t then ACCEPT else REJECT)"

text \<open>
  The default of the parameter \<^verbatim>\<open>threshold\<close> of \<^verbatim>\<open>interactive_test\<close>, and the
  threshold of \<^verbatim>\<open>run_demo\<close>; as a float it is \<open>Finite default_threshold\<close>.
\<close>

definition default_threshold :: real where
  "default_threshold = 0.10"

subsection \<open>average\_samples\<close>

text \<open>
  \<^verbatim>\<open>zip(*samples)\<close>: the columns of the rows, as many as the shortest row has entries,
  and none at all for no rows.
\<close>

function zip_star :: "'a list list \<Rightarrow> 'a list list" where
  "zip_star xss = (if xss = [] \<or> (\<exists>xs \<in> set xss. xs = []) then []
                   else map hd xss # zip_star (map tl xss))"
  by pat_completeness auto
termination
proof (relation "measure (\<lambda>xss. length (hd xss))")
  show "wf (measure (\<lambda>xss::'a list list. length (hd xss)))" by simp
next
  fix xss :: "'a list list"
  assume "\<not> (xss = [] \<or> (\<exists>xs \<in> set xss. xs = []))"
  then have "xss \<noteq> []" and "hd xss \<noteq> []"
    by (cases xss; auto)+
  then show "(map tl xss, xss) \<in> measure (\<lambda>xss. length (hd xss))"
    by (simp add: hd_map)
qed

declare zip_star.simps [simp del]

text \<open>The loop \<^verbatim>\<open>for s in samples: if len(s) != length: return None\<close>.\<close>

fun all_of_length :: "nat \<Rightarrow> 'a list list \<Rightarrow> bool" where
  "all_of_length n [] = True"
| "all_of_length n (s # ss) = (if length s \<noteq> n then False else all_of_length n ss)"

text \<open>The comprehension \<^verbatim>\<open>[mean(col) for col in ...]\<close>: the first mean that raises ends it.\<close>

fun means :: "real list list \<Rightarrow> error + real list" where
  "means [] = Inr []"
| "means (col # cols) =
     (case mean col of
        Inl e \<Rightarrow> Inl e
      | Inr m \<Rightarrow> (case means cols of Inl e \<Rightarrow> Inl e | Inr ms \<Rightarrow> Inr (m # ms)))"

text \<open>
  \<^verbatim>\<open>
  def average_samples(samples):
      if not samples:
          return None
      length = len(samples[0])
      for s in samples:
          if len(s) != length:
              return None
      return [mean(col) for col in zip(*samples)]
  \<close>
\<close>

definition average_samples :: "features list \<Rightarrow> error + features option" where
  "average_samples samples =
     (if samples = [] then Inr None
      else if \<not> all_of_length (length (samples ! 0)) samples then Inr None
      else (case means (zip_star samples) of
              Inl e \<Rightarrow> Inl e
            | Inr avg \<Rightarrow> Inr (Some avg)))"

subsection \<open>The profile file\<close>

text \<open>
  The program keeps all profiles in the one file \<^verbatim>\<open>PROFILE_FILE\<close>, opened with
  \<^verbatim>\<open>open\<close>, read with \<^verbatim>\<open>json.load\<close> and written with \<^verbatim>\<open>json.dump\<close>. Of an
  existing file the model holds whether \<^verbatim>\<open>open(PROFILE_FILE, "r")\<close> and
  \<^verbatim>\<open>open(PROFILE_FILE, "w")\<close> succeed (they raise an \<^verbatim>\<open>OSError\<close> on a directory or
  without the permission), and what \<^verbatim>\<open>json.load\<close> does on the opened file: it raises
  (the bytes cannot be read or decoded, or are not JSON), or it returns a value, which is
  a \<^verbatim>\<open>dict\<close> or something else (a list, a number, a string, \<^verbatim>\<open>null\<close>). A \<^verbatim>\<open>dict\<close>
  is an association list in insertion order; its values are what \<^verbatim>\<open>save_profile\<close>
  writes: a list of numbers, or \<^verbatim>\<open>null\<close> for \<^verbatim>\<open>None\<close>. Dumping such a \<^verbatim>\<open>dict\<close>
  and loading it again gives the same \<^verbatim>\<open>dict\<close>, so the file after a write is held
  as the value written.
\<close>

datatype loaded = PyDict "(string \<times> features option) list" | NotADict

record stored_file =
  can_read :: bool
  can_write :: bool
  content :: "error + loaded"

text \<open>
  The world around the program: the profile file (\<open>None\<close> when
  \<^verbatim>\<open>os.path.exists(PROFILE_FILE)\<close> is false), whether a missing file can be created,
  how often the file has been opened for writing, and how many recordings the recorder
  has made.
\<close>

record world =
  profile_file :: "stored_file option"
  can_create :: bool
  writes :: nat
  recordings :: nat

text \<open>\<^verbatim>\<open>data[name] = features\<close> on a \<^verbatim>\<open>dict\<close>: replace in place, or append.\<close>

fun dict_set :: "(string \<times> 'v) list \<Rightarrow> string \<Rightarrow> 'v \<Rightarrow> (string \<times> 'v) list" where
  "dict_set [] k v = [(k, v)]"
| "dict_set ((k', v') # d) k v = (if k' = k then (k, v) # d else (k', v') # dict_set d k v)"

text \<open>
  \<^verbatim>\<open>data.get(name)\<close> on a \<^verbatim>\<open>dict\<close>: \<^verbatim>\<open>None\<close> for a missing key, and the value
  otherwise, which is \<^verbatim>\<open>None\<close> too when \<^verbatim>\<open>null\<close> is stored.
\<close>

definition dict_get :: "(string \<times> 'v option) list \<Rightarrow> string \<Rightarrow> 'v option" where
  "dict_get d k = (case map_of d k of None \<Rightarrow> None | Some v \<Rightarrow> v)"

text \<open>
  \<^verbatim>\<open>
  def save_profile(name, features):
      data = {}
      if os.path.exists(PROFILE_FILE):
          with open(PROFILE_FILE, "r") as f:
              try:
                  data = json.load(f)
              except Exception:
                  data = {}
      data[name] = features
      with open(PROFILE_FILE, "w") as f:
          json.dump(data, f)
  \<close>
  The two \<^verbatim>\<open>open\<close> calls stand outside the \<^verbatim>\<open>try\<close>: what they raise leaves the
  function. \<open>read_data\<close> is the part up to the assignment, \<open>write_data\<close> the part
  after it. Item assignment with a string key raises \<^verbatim>\<open>TypeError\<close> on every JSON value
  that is not a \<^verbatim>\<open>dict\<close>; that happens before the file is opened for writing. A failed
  \<^verbatim>\<open>open\<close> leaves the file as it was, and a file that the program creates can be
  opened again.
\<close>

definition read_data :: "world \<Rightarrow> error + loaded" where
  "read_data w =
     (case profile_file w of
        None \<Rightarrow> Inr (PyDict [])
      | Some f \<Rightarrow>
          if \<not> can_read f then Inl OSError
          else (case content f of
                  Inl e \<Rightarrow> Inr (PyDict [])
                | Inr v \<Rightarrow> Inr v))"

definition write_data :: "(string \<times> features option) list \<Rightarrow> world \<Rightarrow> (error + unit) \<times> world" where
  "write_data d w =
     (case profile_file w of
        None \<Rightarrow>
          if \<not> can_create w then (Inl OSError, w)
          else (Inr (), w\<lparr>profile_file :=
                             Some \<lparr>can_read = True, can_write = True, content = Inr (PyDict d)\<rparr>,
                           writes := Suc (writes w)\<rparr>)
      | Some f \<Rightarrow>
          if \<not> can_write f then (Inl OSError, w)
          else (Inr (), w\<lparr>profile_file := Some (f\<lparr>content := Inr (PyDict d)\<rparr>),
                           writes := Suc (writes w)\<rparr>))"

definition save_profile :: "string \<Rightarrow> features option \<Rightarrow> world \<Rightarrow> (error + unit) \<times> world" where
  "save_profile name feats w =
     (case read_data w of
        Inl e \<Rightarrow> (Inl e, w)
      | Inr NotADict \<Rightarrow> (Inl TypeError, w)
      | Inr (PyDict d) \<Rightarrow> write_data (dict_set d name feats) w)"

text \<open>
  \<^verbatim>\<open>
  def load_profile(name):
      if not os.path.exists(PROFILE_FILE):
          return None
      with open(PROFILE_FILE, "r") as f:
          try:
              return json.load(f).get(name)
          except Exception:
              return None
  \<close>
  The \<^verbatim>\<open>open\<close> stands outside the \<^verbatim>\<open>try\<close>, so what it raises leaves the function.
  A value that is not a \<^verbatim>\<open>dict\<close> has no \<^verbatim>\<open>get\<close>: the \<^verbatim>\<open>AttributeError\<close> is raised
  inside the \<^verbatim>\<open>try\<close> and caught there.
\<close>

definition load_profile :: "string \<Rightarrow> world \<Rightarrow> error + features option" where
  "load_profile name w =
     (case profile_file w of
        None \<Rightarrow> Inr None
      | Some f \<Rightarrow>
          if \<not> can_read f then Inl OSError
          else (case content f of
                  Inl e \<Rightarrow> Inr None
                | Inr NotADict \<Rightarrow> Inr None
                | Inr (PyDict d) \<Rightarrow> Inr (dict_get d name)))"

subsection \<open>Recording, registration and test\<close>

text \<open>
  The two recorders (\<^verbatim>\<open>record_keystrokes_pynput\<close>, \<^verbatim>\<open>record_keystrokes_fallback\<close>) wait
  for the user; which of them runs is chosen by \<^verbatim>\<open>should_use_pynput\<close>, and both return
  \<^verbatim>\<open>typed, press_times, release_times\<close>. The model takes what the user does as a
  parameter \<open>user\<close>: \<open>user i\<close> is what recording number \<open>i\<close> returns. A recording
  advances the count of recordings.
\<close>

definition record_keystrokes :: "(nat \<Rightarrow> sample) \<Rightarrow> world \<Rightarrow> sample \<times> world" where
  "record_keystrokes user w = (user (recordings w), w\<lparr>recordings := Suc (recordings w)\<rparr>)"

text \<open>
  The loop of \<^verbatim>\<open>interactive_register\<close>, with the number of rounds still to go:
  \<^verbatim>\<open>
      for i in range(3):
          typed, press, rel = record_keystrokes_...(...)
          features = extract_features(typed, press, rel)
          if features is None:
              print("Typed text did not match password. Aborting registration.")
              return False
          samples.append(features)
  \<close>
  \<open>None\<close> is the early \<^verbatim>\<open>return False\<close>.
\<close>

fun record_samples ::
  "nat \<Rightarrow> (nat \<Rightarrow> sample) \<Rightarrow> world \<Rightarrow> features list \<Rightarrow> features list option \<times> world" where
  "record_samples 0 user w samples = (Some samples, w)"
| "record_samples (Suc k) user w samples =
     (case record_keystrokes user w of
        (s, w') \<Rightarrow>
          (case extract_features (typed s) (press_times s) (release_times s) of
             None \<Rightarrow> (None, w')
           | Some f \<Rightarrow> record_samples k user w' (samples @ [f])))"

text \<open>
  \<^verbatim>\<open>
  def interactive_register(name):
      samples = []
      for i in range(3): ...
      avg = average_samples(samples)
      save_profile(name, avg)
      print("Saved averaged profile for", name)
      return True
  \<close>
\<close>

definition interactive_register ::
  "string \<Rightarrow> (nat \<Rightarrow> sample) \<Rightarrow> world \<Rightarrow> (error + bool) \<times> world" where
  "interactive_register name user w =
     (case record_samples 3 user w [] of
        (None, w') \<Rightarrow> (Inr False, w')
      | (Some samples, w') \<Rightarrow>
          (case average_samples samples of
             Inl e \<Rightarrow> (Inl e, w')
           | Inr avg \<Rightarrow>
               (case save_profile name avg w' of
                  (Inl e, w'') \<Rightarrow> (Inl e, w'')
                | (Inr u, w'') \<Rightarrow> (Inr True, w''))))"

text \<open>
  What \<^verbatim>\<open>interactive_test\<close> prints before it returns: \<^verbatim>\<open>Profile not found.\<close>, or
  \<^verbatim>\<open>Typed text did not match password. Try again.\<close>, or the score followed by
  \<^verbatim>\<open>Access Granted\<close> or by \<^verbatim>\<open>Access Denied\<close>.
\<close>

datatype outcome = Profile_not_found | Typed_text_did_not_match
  | Access_Granted score | Access_Denied score

text \<open>
  \<^verbatim>\<open>
  def interactive_test(name, threshold=0.10):
      stored = load_profile(name)
      if stored is None:
          print("Profile not found.")
          return
      typed, press, rel = record_keystrokes_...("Recording test pattern")
      features = extract_features(typed, press, rel)
      if features is None:
          print("Typed text did not match password. Try again.")
          return
      score = compare_features(stored, features)
      print(f"Mean absolute feature difference = {score:.4f} seconds")
      if score <= threshold:
          print("Access Granted")
      else:
          print("Access Denied")
  \<close>
\<close>

definition interactive_test ::
  "string \<Rightarrow> pyfloat \<Rightarrow> (nat \<Rightarrow> sample) \<Rightarrow> world \<Rightarrow> (error + outcome) \<times> world" where
  "interactive_test name threshold user w =
     (case load_profile name w of
        Inl e \<Rightarrow> (Inl e, w)
      | Inr None \<Rightarrow> (Inr Profile_not_found, w)
      | Inr (Some stored) \<Rightarrow>
          (case record_keystrokes user w of
             (s, w') \<Rightarrow>
               (case extract_features (typed s) (press_times s) (release_times s) of
                  None \<Rightarrow> (Inr Typed_text_did_not_match, w')
                | Some f \<Rightarrow>
                    (case compare_features (Some stored) (Some f) of
                       Inl e \<Rightarrow> (Inl e, w')
                     | Inr sc \<Rightarrow>
                         if score_le sc threshold then (Inr (Access_Granted sc), w')
                         else (Inr (Access_Denied sc), w')))))"

text \<open>
  The vectors of \<^verbatim>\<open>run_demo\<close>: \<^verbatim>\<open>base_profile = base_dwell + base_flight\<close> and
  \<^verbatim>\<open>impostor_base = [v*1.3 for v in base_profile]\<close>.
\<close>

definition base_dwell :: features where
  "base_dwell = [0.08, 0.09, 0.07, 0.10, 0.09, 0.08]"

definition base_flight :: features where
  "base_flight = [0.12, 0.11, 0.10, 0.14, 0.13]"

definition base_profile :: features where
  "base_profile = base_dwell @ base_flight"

definition impostor_base :: features where
  "impostor_base = map (\<lambda>v. v * 1.3) base_profile"

section \<open>Properties\<close>

subsection \<open>Feature extraction\<close>

lemma extract_features_Some:
  assumes "ty = PASSWORD" "length PASSWORD \<le> length press" "length PASSWORD \<le> length rel"
  shows "extract_features ty press rel =
     Some (map (\<lambda>i. rel ! i - press ! i) [0..<length PASSWORD]
           @ map (\<lambda>i. press ! i - press ! (i - 1)) [1..<length PASSWORD])"
  using assms by (simp add: extract_features_def Let_def)

lemma extract_features_SomeD:
  assumes "extract_features ty press rel = Some v"
  shows "ty = PASSWORD \<and> length PASSWORD \<le> length press \<and> length PASSWORD \<le> length rel
     \<and> v = map (\<lambda>i. rel ! i - press ! i) [0..<length PASSWORD]
           @ map (\<lambda>i. press ! i - press ! (i - 1)) [1..<length PASSWORD]"
  using assms by (auto simp add: extract_features_def Let_def split: if_splits)

lemma extract_features_None_iff:
  "extract_features ty press rel = None \<longleftrightarrow>
     (ty \<noteq> PASSWORD \<or> length press < length PASSWORD \<or> length rel < length PASSWORD)"
  by (simp add: extract_features_def Let_def)

lemma extract_features_take:
  "extract_features ty (take (length PASSWORD) press) (take (length PASSWORD) rel)
     = extract_features ty press rel"
  by (auto simp add: extract_features_def Let_def)

text \<open>
  Claim C2. \<^verbatim>\<open>extract_features\<close> returns \<^verbatim>\<open>None\<close> exactly when the typed text differs
  from the password or one of the two timestamp lists has fewer than \<open>k\<close> entries, where
  \<open>k\<close> is the length of the password. Otherwise it returns a vector of length
  \<open>2k - 1\<close>: entry \<open>i\<close> below \<open>k\<close> is \<open>release_times[i] - press_times[i]\<close>, and
  the entry \<open>k + (i - 1)\<close>, for \<open>i\<close> from 1 below \<open>k\<close>, is
  \<open>press_times[i] - press_times[i-1]\<close>. Entries of the lists beyond the first \<open>k\<close> do
  not matter: cutting both lists to \<open>k\<close> entries gives the same result.
\<close>

theorem extract_features_spec:
  "(extract_features ty press rel = None \<longleftrightarrow>
      (ty \<noteq> PASSWORD \<or> length press < length PASSWORD \<or> length rel < length PASSWORD))
   \<and> (ty = PASSWORD \<and> length PASSWORD \<le> length press \<and> length PASSWORD \<le> length rel \<longrightarrow>
        (\<exists>v. extract_features ty press rel = Some v
           \<and> length v = 2 * length PASSWORD - 1
           \<and> (\<forall>i < length PASSWORD. v ! i = rel ! i - press ! i)
           \<and> (\<forall>i. 1 \<le> i \<and> i < length PASSWORD \<longrightarrow>
                 v ! (length PASSWORD + (i - 1)) = press ! i - press ! (i - 1))))
   \<and> extract_features ty (take (length PASSWORD) press) (take (length PASSWORD) rel)
       = extract_features ty press rel"
proof (intro conjI impI)
  show "extract_features ty press rel = None \<longleftrightarrow>
      (ty \<noteq> PASSWORD \<or> length press < length PASSWORD \<or> length rel < length PASSWORD)"
    by (rule extract_features_None_iff)
next
  assume h: "ty = PASSWORD \<and> length PASSWORD \<le> length press \<and> length PASSWORD \<le> length rel"
  let ?k = "length PASSWORD"
  let ?v = "map (\<lambda>i. rel ! i - press ! i) [0..<?k] @ map (\<lambda>i. press ! i - press ! (i - 1)) [1..<?k]"
  have e: "extract_features ty press rel = Some ?v"
    using h by (simp add: extract_features_Some)
  have l: "length ?v = 2 * ?k - 1" by simp
  have d: "\<forall>i < ?k. ?v ! i = rel ! i - press ! i"
    by (simp add: nth_append)
  have f: "\<forall>i. 1 \<le> i \<and> i < ?k \<longrightarrow> ?v ! (?k + (i - 1)) = press ! i - press ! (i - 1)"
    by (auto simp add: nth_append)
  show "\<exists>v. extract_features ty press rel = Some v
           \<and> length v = 2 * length PASSWORD - 1
           \<and> (\<forall>i < length PASSWORD. v ! i = rel ! i - press ! i)
           \<and> (\<forall>i. 1 \<le> i \<and> i < length PASSWORD \<longrightarrow>
                 v ! (length PASSWORD + (i - 1)) = press ! i - press ! (i - 1))"
    using e l d f by blast
next
  show "extract_features ty (take (length PASSWORD) press) (take (length PASSWORD) rel)
       = extract_features ty press rel"
    by (rule extract_features_take)
qed

text \<open>
  The theorem at the password \<^verbatim>\<open>secret\<close>, with seven press times and eight release
  times: the vector has the six dwell times and the five flight times of the first six
  entries, the same as for the lists cut to six entries; a seventh typed character or a
  fifth press time missing gives \<^verbatim>\<open>None\<close>.
\<close>

theorem extract_features_spec_witness:
  "extract_features ''secret'' [0, 1, 2, 3, 4, 5, 9] [0.5, 1.5, 2.5, 3.5, 4.5, 5.5, 9.5, 10]
     = Some [0.5, 0.5, 0.5, 0.5, 0.5, 0.5, 1, 1, 1, 1, 1]
   \<and> extract_features ''secret'' [0, 1, 2, 3, 4, 5] [0.5, 1.5, 2.5, 3.5, 4.5, 5.5]
     = Some [0.5, 0.5, 0.5, 0.5, 0.5, 0.5, 1, 1, 1, 1, 1]
   \<and> extract_features ''secrets'' [0, 1, 2, 3, 4, 5, 9] [0.5, 1.5, 2.5, 3.5, 4.5, 5.5, 9.5, 10] = None
   \<and> extract_features ''secret'' [0, 1, 2, 3, 4] [0.5, 1.5, 2.5, 3.5, 4.5, 5.5, 9.5, 10] = None"
proof -
  have p: "PASSWORD = ''secret''" by (simp add: PASSWORD_def)
  have k: "length PASSWORD = 6" by (simp add: PASSWORD_def)
  let ?P = "[0, 1, 2, 3, 4, 5, 9] :: real list"
  let ?R = "[0.5, 1.5, 2.5, 3.5, 4.5, 5.5, 9.5, 10] :: real list"
  have h: "''secret'' = PASSWORD \<and> length PASSWORD \<le> length ?P \<and> length PASSWORD \<le> length ?R"
    by (simp add: PASSWORD_def)
  from extract_features_spec [of "''secret''" ?P ?R] h
  obtain v where v: "extract_features ''secret'' ?P ?R = Some v"
    and l: "length v = 2 * length PASSWORD - 1"
    and d: "\<forall>i < length PASSWORD. v ! i = ?R ! i - ?P ! i"
    and f: "\<forall>i. 1 \<le> i \<and> i < length PASSWORD \<longrightarrow>
                 v ! (length PASSWORD + (i - 1)) = ?P ! i - ?P ! (i - 1)"
    and t: "extract_features ''secret'' (take (length PASSWORD) ?P) (take (length PASSWORD) ?R)
       = extract_features ''secret'' ?P ?R"
    by blast
  have l11: "length v = 11" using l k by simp
  have "v ! 0 = 0.5" "v ! 1 = 0.5" "v ! 2 = 0.5" "v ! 3 = 0.5" "v ! 4 = 0.5" "v ! 5 = 0.5"
    using d k by simp_all
  moreover have "v ! 6 = 1" "v ! 7 = 1" "v ! 8 = 1" "v ! 9 = 1" "v ! 10 = 1"
    using f [rule_format, of 1] f [rule_format, of 2] f [rule_format, of 3]
      f [rule_format, of 4] f [rule_format, of 5] k by simp_all
  ultimately have "v = [0.5, 0.5, 0.5, 0.5, 0.5, 0.5, 1, 1, 1, 1, 1]"
    using l11 by (simp add: list_eq_iff_nth_eq less_Suc_eq numeral_eq_Suc)
  then have a: "extract_features ''secret'' ?P ?R = Some [0.5, 0.5, 0.5, 0.5, 0.5, 0.5, 1, 1, 1, 1, 1]"
    using v by simp
  have b: "extract_features ''secret'' [0, 1, 2, 3, 4, 5] [0.5, 1.5, 2.5, 3.5, 4.5, 5.5]
     = Some [0.5, 0.5, 0.5, 0.5, 0.5, 0.5, 1, 1, 1, 1, 1]"
    using t a k by simp
  have c: "extract_features ''secrets'' ?P ?R = None"
    using extract_features_spec [of "''secrets''" ?P ?R] by (simp add: PASSWORD_def)
  have e: "extract_features ''secret'' [0, 1, 2, 3, 4] ?R = None"
    using extract_features_spec [of "''secret''" "[0, 1, 2, 3, 4]" ?R] by (simp add: PASSWORD_def)
  show ?thesis using a b c e by simp
qed

text \<open>
  Claim C5, as amended. If the press times are monotonically non-decreasing and
  \<^verbatim>\<open>extract_features\<close> succeeds, then every flight entry of the vector is
  non-negative, and the dwell entry \<open>i\<close> is non-negative exactly when
  \<open>press_times[i] \<le> release_times[i]\<close>. So the whole vector is non-negative when,
  moreover, none of the first \<open>k\<close> keys is released before it is pressed. That the
  release times are monotone among themselves is not needed, and does not help.
\<close>

theorem extract_features_nonneg:
  assumes "sorted press"
    and "extract_features ty press rel = Some v"
  shows "(\<forall>i < length PASSWORD. (0 \<le> v ! i) = (press ! i \<le> rel ! i))
     \<and> (\<forall>i. length PASSWORD \<le> i \<and> i < length v \<longrightarrow> 0 \<le> v ! i)
     \<and> ((\<forall>i < length PASSWORD. press ! i \<le> rel ! i) \<longrightarrow> (\<forall>x \<in> set v. 0 \<le> x))"
proof -
  let ?k = "length PASSWORD"
  from extract_features_SomeD [OF assms(2)]
  have lp: "?k \<le> length press"
    and v: "v = map (\<lambda>i. rel ! i - press ! i) [0..<?k] @ map (\<lambda>i. press ! i - press ! (i - 1)) [1..<?k]"
    by simp_all
  have len: "length v = ?k + (?k - 1)" using v by simp
  have dw: "\<forall>i < ?k. v ! i = rel ! i - press ! i"
    using v by (simp add: nth_append)
  have fl: "0 \<le> v ! i" if "?k \<le> i" "i < length v" for i
  proof -
    have i: "i - ?k < ?k - 1" using that len by arith
    then have "v ! i = press ! (1 + (i - ?k)) - press ! (i - ?k)"
      using v that by (simp add: nth_append)
    moreover have "press ! (i - ?k) \<le> press ! (1 + (i - ?k))"
      using assms(1) i lp by (intro sorted_nth_mono) auto
    ultimately show ?thesis by simp
  qed
  have a: "\<forall>i < ?k. (0 \<le> v ! i) = (press ! i \<le> rel ! i)" using dw by simp
  have b: "\<forall>i. ?k \<le> i \<and> i < length v \<longrightarrow> 0 \<le> v ! i" using fl by blast
  have c: "\<forall>x \<in> set v. 0 \<le> x" if h: "\<forall>i < ?k. press ! i \<le> rel ! i"
  proof
    fix x assume "x \<in> set v"
    then obtain i where i: "i < length v" "x = v ! i" by (auto simp add: in_set_conv_nth)
    show "0 \<le> x"
    proof (cases "i < ?k")
      case True
      then show ?thesis using a h i by simp
    next
      case False
      then show ?thesis using b i by simp
    qed
  qed
  show ?thesis using a b c by blast
qed

text \<open>The theorem at six keys pressed one second apart and held for half a second.\<close>

theorem extract_features_nonneg_witness:
  "sorted [0, 1, 2, 3, 4, 5 :: real]
   \<and> extract_features ''secret'' [0, 1, 2, 3, 4, 5] [0.5, 1.5, 2.5, 3.5, 4.5, 5.5]
       = Some [0.5, 0.5, 0.5, 0.5, 0.5, 0.5, 1, 1, 1, 1, 1]
   \<and> list_all (\<lambda>x. 0 \<le> x) [0.5, 0.5, 0.5, 0.5, 0.5, 0.5, 1, 1, 1, 1, 1 :: real]"
proof -
  let ?P = "[0, 1, 2, 3, 4, 5] :: real list"
  let ?R = "[0.5, 1.5, 2.5, 3.5, 4.5, 5.5] :: real list"
  let ?V = "[0.5, 0.5, 0.5, 0.5, 0.5, 0.5, 1, 1, 1, 1, 1] :: real list"
  have s: "sorted ?P" by simp
  have e: "extract_features ''secret'' ?P ?R = Some ?V"
    by (simp add: extract_features_def PASSWORD_def upt_rec [of _ "numeral _"])
  have h: "\<forall>i < length PASSWORD. ?P ! i \<le> ?R ! i"
    by (simp add: PASSWORD_def less_Suc_eq numeral_eq_Suc all_conj_distrib)
  from extract_features_nonneg [OF s e] h have "\<forall>x \<in> set ?V. 0 \<le> x" by blast
  then have "list_all (\<lambda>x. 0 \<le> x) ?V" unfolding list_all_iff .
  with s e show ?thesis by blast
qed

text \<open>
  Claim C5 as it was stated fails: press times that are all 1 and release times that
  are all 0 are both monotonically non-decreasing, extraction succeeds, and every dwell
  entry is \<open>-1\<close>.
\<close>

theorem extract_features_negative_dwell:
  "sorted [1, 1, 1, 1, 1, 1 :: real] \<and> sorted [0, 0, 0, 0, 0, 0 :: real]
   \<and> extract_features ''secret'' [1, 1, 1, 1, 1, 1] [0, 0, 0, 0, 0, 0]
       = Some [- 1, - 1, - 1, - 1, - 1, - 1, 0, 0, 0, 0, 0]
   \<and> \<not> (0 \<le> [- 1, - 1, - 1, - 1, - 1, - 1, 0, 0, 0, 0, 0 :: real] ! 0)"
  by (simp add: extract_features_def PASSWORD_def upt_rec [of _ "numeral _"])

subsection \<open>Averaging\<close>

lemma all_of_length_iff: "all_of_length n ss \<longleftrightarrow> (\<forall>s \<in> set ss. length s = n)"
  by (induction ss) auto

text \<open>
  Claim C7. For the empty sequence of vectors, and for every sequence in which two
  vectors have different lengths, \<^verbatim>\<open>average_samples\<close> returns \<^verbatim>\<open>None\<close>: no vector
  at all, so none that is partial, truncated or filled with zeros.
\<close>

theorem average_samples_unequal:
  assumes "samples = [] \<or> (\<exists>s \<in> set samples. \<exists>t \<in> set samples. length s \<noteq> length t)"
  shows "average_samples samples = Inr None"
proof (cases "samples = []")
  case True
  then show ?thesis by (simp add: average_samples_def)
next
  case False
  with assms obtain s t where st: "s \<in> set samples" "t \<in> set samples" "length s \<noteq> length t"
    by blast
  have "samples ! 0 \<in> set samples" using False by simp
  then have "\<not> all_of_length (length (samples ! 0)) samples"
    using st unfolding all_of_length_iff by metis
  then show ?thesis using False by (simp add: average_samples_def)
qed

text \<open>The theorem at a vector of two entries followed by one of one entry, and at no vectors.\<close>

theorem average_samples_unequal_witness:
  "average_samples [[1, 2], [3]] = Inr None \<and> average_samples [] = Inr None"
proof -
  let ?S = "[[1, 2], [3]] :: features list"
  have "[1, 2] \<in> set ?S" "[3] \<in> set ?S" "length [1, 2 :: real] \<noteq> length [3 :: real]"
    by simp_all
  then have "\<exists>s \<in> set ?S. \<exists>t \<in> set ?S. length s \<noteq> length t" by blast
  then have "average_samples ?S = Inr None" using average_samples_unequal [of ?S] by blast
  moreover have "average_samples [] = Inr None" using average_samples_unequal [of "[]"] by simp
  ultimately show ?thesis by simp
qed

lemma zip_star_replicate:
  "0 < n \<Longrightarrow> zip_star (replicate n v) = map (replicate n) v"
proof (induction v)
  case Nil
  then show ?case by (subst zip_star.simps) auto
next
  case (Cons x v)
  have "zip_star (replicate n (x # v)) = map hd (replicate n (x # v)) # zip_star (map tl (replicate n (x # v)))"
    using Cons.prems by (subst zip_star.simps) auto
  then show ?case using Cons by simp
qed

lemma mean_replicate: "0 < n \<Longrightarrow> mean (replicate n x) = Inr x"
  by (simp add: mean_def sum_list_replicate)

lemma means_replicate: "0 < n \<Longrightarrow> means (map (replicate n) v) = Inr v"
  by (induction v) (simp_all add: mean_replicate)

lemma all_of_length_replicate: "all_of_length (length v) (replicate n v)"
  by (simp add: all_of_length_iff)

text \<open>
  Claim C8. For every vector \<open>v\<close> and every \<open>n \<ge> 1\<close>, \<^verbatim>\<open>average_samples\<close> of
  \<open>n\<close> copies of \<open>v\<close> returns \<open>v\<close> itself. (\<^verbatim>\<open>statistics.mean\<close> sums and divides
  exactly, so the float it returns for \<open>n\<close> copies of \<open>x\<close> is \<open>x\<close> as well.)
\<close>

theorem average_samples_identical:
  assumes "1 \<le> n"
  shows "average_samples (replicate n v) = Inr (Some v)"
proof -
  have n: "0 < n" using assms by simp
  then have ne: "replicate n v \<noteq> []" by simp
  have "replicate n v ! 0 = v" using n by simp
  then show ?thesis
    using n ne by (simp add: average_samples_def all_of_length_replicate zip_star_replicate means_replicate)
qed

text \<open>The theorem at three copies of the base profile of the demo.\<close>

theorem average_samples_identical_witness:
  "(1::nat) \<le> 3 \<and> average_samples [base_profile, base_profile, base_profile] = Inr (Some base_profile)"
proof -
  have h: "(1::nat) \<le> 3" by simp
  have r: "replicate 3 base_profile = [base_profile, base_profile, base_profile]"
    by (simp add: numeral_3_eq_3)
  show ?thesis using average_samples_identical [OF h, of base_profile] h r by simp
qed

subsection \<open>Scores and decisions\<close>

lemmas demo_defs = base_profile_def base_dwell_def base_flight_def impostor_base_def

lemma compare_demo:
  "compare_features (Some base_profile) (Some impostor_base) = Inr (Finite (333 / 11000))"
  by (simp add: compare_features_def mean_def demo_defs)

lemma extract_impostor:
  "extract_features ''secret'' [0, 0.156, 0.299, 0.429, 0.611, 0.78]
       [0.104, 0.273, 0.39, 0.559, 0.728, 0.884] = Some impostor_base"
  by (simp add: extract_features_def PASSWORD_def demo_defs upt_rec [of _ "numeral _"])

lemma interactive_test_scored:
  assumes "load_profile name w = Inr (Some st)"
    and "features_of (user (recordings w)) = Some f"
    and "compare_features (Some st) (Some f) = Inr sc"
  shows "fst (interactive_test name t user w)
     = Inr (if score_le sc t then Access_Granted sc else Access_Denied sc)"
  using assms by (simp add: interactive_test_def record_keystrokes_def)

text \<open>
  Claim C1, as amended. For the base profile of the demo and the candidate that is 1.3
  times it in every dimension, the absolute differences are 0.3 times the profile and
  average \<open>333 / 11000\<close>, about 0.0303, which is below the default threshold 0.10:
  the decision is ACCEPT. A recording whose extracted vector is that candidate, tested
  against that stored profile at the default threshold, ends with
  \<^verbatim>\<open>Access Granted\<close>.
\<close>

theorem impostor_base_granted:
  "compare_features (Some base_profile) (Some impostor_base) = Inr (Finite (333 / 11000))
   \<and> decide (Finite (333 / 11000)) (Finite default_threshold) = ACCEPT
   \<and> extract_features ''secret'' [0, 0.156, 0.299, 0.429, 0.611, 0.78]
       [0.104, 0.273, 0.39, 0.559, 0.728, 0.884] = Some impostor_base
   \<and> fst (interactive_test ''demo_user'' (Finite default_threshold)
       (\<lambda>i. \<lparr>typed = ''secret'',
              press_times = [0, 0.156, 0.299, 0.429, 0.611, 0.78],
              release_times = [0.104, 0.273, 0.39, 0.559, 0.728, 0.884]\<rparr>)
       \<lparr>profile_file = Some \<lparr>can_read = True, can_write = True,
          content = Inr (PyDict [(''demo_user'', Some base_profile)])\<rparr>,
        can_create = True, writes = 1, recordings = 0\<rparr>)
     = Inr (Access_Granted (Finite (333 / 11000)))"
proof -
  let ?w = "\<lparr>profile_file = Some \<lparr>can_read = True, can_write = True,
          content = Inr (PyDict [(''demo_user'', Some base_profile)])\<rparr>,
        can_create = True, writes = 1, recordings = 0\<rparr>"
  let ?u = "\<lambda>i::nat. \<lparr>typed = ''secret'',
              press_times = [0, 0.156, 0.299, 0.429, 0.611, 0.78],
              release_times = [0.104, 0.273, 0.39, 0.559, 0.728, 0.884]\<rparr>"
  have l: "load_profile ''demo_user'' ?w = Inr (Some base_profile)"
    by (simp add: load_profile_def dict_get_def)
  have d: "decide (Finite (333 / 11000)) (Finite default_threshold) = ACCEPT"
    by (simp add: decide_def default_threshold_def)
  have e: "features_of (?u (recordings ?w)) = Some impostor_base"
    using extract_impostor by simp
  have s: "score_le (Finite (333 / 11000)) (Finite default_threshold)"
    by (simp add: default_threshold_def)
  have t: "fst (interactive_test ''demo_user'' (Finite default_threshold) ?u ?w)
     = Inr (Access_Granted (Finite (333 / 11000)))"
    using interactive_test_scored [where user = ?u and w = ?w and name = "''demo_user''"
        and t = "Finite default_threshold" and st = base_profile and f = impostor_base
        and sc = "Finite (333 / 11000)"] l e compare_demo s
    by simp
  show ?thesis using compare_demo d extract_impostor t by blast
qed

text \<open>
  Claim C1 as it was stated fails: the average of the differences is not above the
  default threshold, and the decision is not REJECT.
\<close>

theorem impostor_base_not_rejected:
  "compare_features (Some base_profile) (Some impostor_base) = Inr (Finite (333 / 11000))
   \<and> \<not> (default_threshold < 333 / 11000)
   \<and> decide (Finite (333 / 11000)) (Finite default_threshold) \<noteq> REJECT"
  by (simp add: compare_demo decide_def default_threshold_def)

subsection \<open>The profile store\<close>

lemma map_of_dict_set: "map_of (dict_set d k v) = (map_of d)(k \<mapsto> v)"
  by (induction d k v rule: dict_set.induct) auto

lemma dict_get_dict_set: "dict_get (dict_set d k v) k' = (if k' = k then v else dict_get d k')"
  by (simp add: dict_get_def map_of_dict_set)

lemma save_profile_raises:
  assumes "fst (save_profile n v w) = Inl e"
  shows "snd (save_profile n v w) = w"
  using assms
  by (auto simp add: save_profile_def write_data_def
      split: sum.splits loaded.splits option.splits if_splits)




text \<open>
  Claim C10. For every state of the profile file, every name \<open>X\<close>, every vector
  \<open>v\<close> and every name \<open>Y\<close> other than \<open>X\<close>: after \<^verbatim>\<open>save_profile(X, v)\<close>,
  \<^verbatim>\<open>load_profile(Y)\<close> returns what it returned before. When the file opens for reading
  and for writing and holds a \<^verbatim>\<open>dict\<close>, the save returns normally and \<open>X\<close> then
  loads as \<open>v\<close>. (A save that raises, on a file that cannot be opened or that parses
  to something other than a \<^verbatim>\<open>dict\<close>, leaves the file as it was.)
\<close>

theorem save_profile_frame:
  assumes "X \<noteq> Y"
  shows "load_profile Y (snd (save_profile X v w)) = load_profile Y w
     \<and> (\<forall>f d. profile_file w = Some f \<and> can_read f \<and> can_write f \<and> content f = Inr (PyDict d) \<longrightarrow>
          fst (save_profile X v w) = Inr ()
          \<and> load_profile X (snd (save_profile X v w)) = Inr v)"
proof -
  have a: "load_profile Y (snd (save_profile X v w)) = load_profile Y w"
  proof (cases "fst (save_profile X v w)")
    case (Inl e)
    then show ?thesis by (simp add: save_profile_raises)
  next
    case (Inr u)
    show ?thesis
    proof (cases "profile_file w")
      case None
      then show ?thesis
        using Inr assms
        by (auto simp add: load_profile_def save_profile_def read_data_def write_data_def
            dict_get_def split: if_splits)
    next
      case (Some f)
      show ?thesis
      proof (cases "content f")
        case (Inl e)
        then show ?thesis
          using Inr Some assms
          by (auto simp add: load_profile_def save_profile_def read_data_def write_data_def
              dict_get_def split: if_splits)
      next
        case c: (Inr val)
        then show ?thesis
          using Inr Some assms
          by (cases val)
            (auto simp add: load_profile_def save_profile_def read_data_def write_data_def
              dict_get_dict_set split: if_splits)
      qed
    qed
  qed
  have b: "fst (save_profile X v w) = Inr () \<and> load_profile X (snd (save_profile X v w)) = Inr v"
    if "profile_file w = Some f" "can_read f" "can_write f" "content f = Inr (PyDict d)" for f d
    using that
    by (simp add: load_profile_def save_profile_def read_data_def write_data_def dict_get_dict_set)
  show ?thesis using a b by blast
qed

text \<open>The theorem at a file with two profiles, one of which is saved again.\<close>

theorem save_profile_frame_witness:
  "''bob'' \<noteq> ''alice''
   \<and> load_profile ''alice'' (snd (save_profile ''bob'' (Some [3])
        \<lparr>profile_file = Some \<lparr>can_read = True, can_write = True,
           content = Inr (PyDict [(''alice'', Some [1, 2]), (''bob'', Some [0])])\<rparr>,
         can_create = True, writes = 2, recordings = 0\<rparr>)) = Inr (Some [1, 2])
   \<and> load_profile ''bob'' (snd (save_profile ''bob'' (Some [3])
        \<lparr>profile_file = Some \<lparr>can_read = True, can_write = True,
           content = Inr (PyDict [(''alice'', Some [1, 2]), (''bob'', Some [0])])\<rparr>,
         can_create = True, writes = 2, recordings = 0\<rparr>)) = Inr (Some [3])"
proof -
  let ?f = "\<lparr>can_read = True, can_write = True,
           content = Inr (PyDict [(''alice'', Some [1, 2]), (''bob'', Some [0])])\<rparr>"
  let ?w = "\<lparr>profile_file = Some ?f, can_create = True, writes = 2, recordings = 0\<rparr>"
  have h: "''bob'' \<noteq> ''alice''" by simp
  have l: "load_profile ''alice'' ?w = Inr (Some [1, 2])"
    by (simp add: load_profile_def dict_get_def)
  have p: "profile_file ?w = Some ?f \<and> can_read ?f \<and> can_write ?f
      \<and> content ?f = Inr (PyDict [(''alice'', Some [1, 2]), (''bob'', Some [0])])"
    by simp
  from save_profile_frame [OF h, of "Some [3]" ?w] l p show ?thesis using h by simp
qed

subsection \<open>Registration\<close>




text \<open>
  The other branch of the run, for comparison: three recordings that all pass extraction
  end with the average saved under the name.
\<close>

lemma average_three:
  "average_samples [v, v, v] = Inr (Some v)"
proof -
  have "replicate 3 v = [v, v, v]" by (simp add: numeral_3_eq_3)
  moreover have "replicate 3 v ! 0 = v" by simp
  ultimately show ?thesis
    using zip_star_replicate [of 3 v] means_replicate [of 3 v] all_of_length_replicate [of v 3]
    by (simp add: average_samples_def)
qed

lemma register_three_identical:
  "interactive_register ''alice''
      (\<lambda>i. \<lparr>typed = ''secret'', press_times = [0, 1, 2, 3, 4, 5],
             release_times = [0.5, 1.5, 2.5, 3.5, 4.5, 5.5]\<rparr>)
      \<lparr>profile_file = None, can_create = True, writes = 0, recordings = 0\<rparr>
     = (Inr True,
        \<lparr>profile_file = Some \<lparr>can_read = True, can_write = True, content = Inr (PyDict
            [(''alice'', Some [0.5, 0.5, 0.5, 0.5, 0.5, 0.5, 1, 1, 1, 1, 1])])\<rparr>,
         can_create = True, writes = 1, recordings = 3\<rparr>)"
proof -
  let ?s = "\<lparr>typed = ''secret'', press_times = [0, 1, 2, 3, 4, 5],
             release_times = [0.5, 1.5, 2.5, 3.5, 4.5, 5.5]\<rparr>"
  let ?w = "\<lparr>profile_file = None, can_create = True, writes = 0, recordings = 0\<rparr>"
  let ?v = "[0.5, 0.5, 0.5, 0.5, 0.5, 0.5, 1, 1, 1, 1, 1] :: real list"
  have e: "features_of ?s = Some ?v"
    by (simp add: extract_features_def PASSWORD_def upt_rec [of _ "numeral _"])
  have r: "record_samples 3 (\<lambda>i. ?s) ?w [] = (Some [?v, ?v, ?v], ?w\<lparr>recordings := 3\<rparr>)"
    using e by (simp add: numeral_3_eq_3 record_keystrokes_def)
  show ?thesis
    using r
    by (simp add: interactive_register_def average_three save_profile_def read_data_def
        write_data_def)
qed

subsection \<open>Verification\<close>





lemma compare_features_Infinite:
  assumes "f1 = None \<or> f2 = None \<or> (\<exists>v1 v2. f1 = Some v1 \<and> f2 = Some v2 \<and> length v1 \<noteq> length v2)"
  shows "compare_features f1 f2 = Inr Infinite"
  using assms by (auto simp add: compare_features_def split: option.splits)

lemma interactive_test_incomparable:
  assumes "load_profile name w = Inr None
     \<or> (\<exists>v1. load_profile name w = Inr (Some v1)
           \<and> (features_of (user (recordings w)) = None
              \<or> (\<exists>v2. features_of (user (recordings w)) = Some v2 \<and> length v1 \<noteq> length v2)))"
  shows "\<exists>oc. fst (interactive_test name (Finite t) user w) = Inr oc
           \<and> (\<forall>sc. oc \<noteq> Access_Granted sc)"
proof (cases "load_profile name w = Inr None")
  case True
  then show ?thesis by (simp add: interactive_test_def)
next
  case False
  with assms obtain v1 where l: "load_profile name w = Inr (Some v1)"
    and h: "features_of (user (recordings w)) = None
              \<or> (\<exists>v2. features_of (user (recordings w)) = Some v2 \<and> length v1 \<noteq> length v2)"
    by blast
  show ?thesis
  proof (cases "features_of (user (recordings w))")
    case None
    then show ?thesis using l by (simp add: interactive_test_def record_keystrokes_def)
  next
    case (Some v2)
    with h have "length v1 \<noteq> length v2" by simp
    then have "compare_features (Some v1) (Some v2) = Inr Infinite"
      by (simp add: compare_features_def)
    with interactive_test_scored [where user = user and w = w and name = name and t = "Finite t"
        and st = v1 and f = v2 and sc = Infinite] l Some
    show ?thesis by simp
  qed
qed

text \<open>
  Claim C6, as amended. For every score and threshold the decision is ACCEPT if and only
  if the score is at most the threshold, the boundary included; the default threshold is
  0.10. When one of the two vectors is absent or their lengths differ,
  \<^verbatim>\<open>compare_features\<close> returns infinity, on which the decision is REJECT for every
  finite threshold, and ACCEPT for the threshold \<^verbatim>\<open>float('inf')\<close>. In
  \<^verbatim>\<open>interactive_test\<close> at a finite threshold, a stored profile that is \<^verbatim>\<open>None\<close>, an
  extracted vector that is \<^verbatim>\<open>None\<close> and vectors of different lengths all end without
  \<^verbatim>\<open>Access Granted\<close>; and whenever a score is computed, at any threshold,
  \<^verbatim>\<open>Access Granted\<close> is printed exactly when the decision on that score is ACCEPT.
\<close>

theorem decision_spec:
  "(decide (Finite s) (Finite t) = ACCEPT \<longleftrightarrow> s \<le> t)
   \<and> decide (Finite s) Infinite = ACCEPT
   \<and> decide Infinite (Finite t) = REJECT
   \<and> decide Infinite Infinite = ACCEPT
   \<and> default_threshold = 0.10
   \<and> ((f1 = None \<or> f2 = None \<or> (\<exists>v1 v2. f1 = Some v1 \<and> f2 = Some v2 \<and> length v1 \<noteq> length v2))
        \<longrightarrow> compare_features f1 f2 = Inr Infinite)
   \<and> ((load_profile name w = Inr None
        \<or> (\<exists>v1. load_profile name w = Inr (Some v1)
              \<and> (features_of (user (recordings w)) = None
                 \<or> (\<exists>v2. features_of (user (recordings w)) = Some v2 \<and> length v1 \<noteq> length v2))))
        \<longrightarrow> (\<exists>oc. fst (interactive_test name (Finite t) user w) = Inr oc
               \<and> (\<forall>sc. oc \<noteq> Access_Granted sc)))
   \<and> ((\<exists>v1 v2. load_profile name w = Inr (Some v1) \<and> features_of (user (recordings w)) = Some v2
              \<and> compare_features (Some v1) (Some v2) = Inr sc)
        \<longrightarrow> fst (interactive_test name th user w)
              = Inr (if decide sc th = ACCEPT then Access_Granted sc else Access_Denied sc))"
proof (intro conjI impI)
  show "decide (Finite s) (Finite t) = ACCEPT \<longleftrightarrow> s \<le> t" by (simp add: decide_def)
  show "decide (Finite s) Infinite = ACCEPT" by (simp add: decide_def)
  show "decide Infinite (Finite t) = REJECT" by (simp add: decide_def)
  show "decide Infinite Infinite = ACCEPT" by (simp add: decide_def)
  show "default_threshold = 0.10" by (simp add: default_threshold_def)
next
  assume "f1 = None \<or> f2 = None \<or> (\<exists>v1 v2. f1 = Some v1 \<and> f2 = Some v2 \<and> length v1 \<noteq> length v2)"
  then show "compare_features f1 f2 = Inr Infinite" by (rule compare_features_Infinite)
next
  assume "load_profile name w = Inr None
        \<or> (\<exists>v1. load_profile name w = Inr (Some v1)
              \<and> (features_of (user (recordings w)) = None
                 \<or> (\<exists>v2. features_of (user (recordings w)) = Some v2 \<and> length v1 \<noteq> length v2)))"
  then show "\<exists>oc. fst (interactive_test name (Finite t) user w) = Inr oc
               \<and> (\<forall>sc. oc \<noteq> Access_Granted sc)"
    by (rule interactive_test_incomparable)
next
  assume "\<exists>v1 v2. load_profile name w = Inr (Some v1) \<and> features_of (user (recordings w)) = Some v2
              \<and> compare_features (Some v1) (Some v2) = Inr sc"
  then obtain v1 v2 where h: "load_profile name w = Inr (Some v1)"
    "features_of (user (recordings w)) = Some v2" "compare_features (Some v1) (Some v2) = Inr sc"
    by blast
  with interactive_test_scored [where user = user and w = w and name = name and t = th
      and st = v1 and f = v2 and sc = sc]
  show "fst (interactive_test name th user w)
              = Inr (if decide sc th = ACCEPT then Access_Granted sc else Access_Denied sc)"
    by (simp add: decide_def)
qed

text \<open>
  The theorem at a score on the boundary, at vectors of lengths two and one, and at a
  test against a stored profile of two entries at the default threshold.
\<close>

theorem decision_spec_witness:
  "decide (Finite (1 / 10)) (Finite default_threshold) = ACCEPT
   \<and> compare_features (Some [1, 2]) (Some [1]) = Inr Infinite
   \<and> decide Infinite (Finite default_threshold) = REJECT
   \<and> fst (interactive_test ''u'' (Finite default_threshold)
          (\<lambda>i. \<lparr>typed = ''secret'', press_times = [0, 1, 2, 3, 4, 5],
                 release_times = [0.5, 1.5, 2.5, 3.5, 4.5, 5.5]\<rparr>)
          \<lparr>profile_file = Some \<lparr>can_read = True, can_write = True,
             content = Inr (PyDict [(''u'', Some [1, 2])])\<rparr>,
           can_create = True, writes = 1, recordings = 0\<rparr>)
        = Inr (Access_Denied Infinite)"
proof -
  let ?u = "\<lambda>i::nat. \<lparr>typed = ''secret'', press_times = [0, 1, 2, 3, 4, 5],
             release_times = [0.5, 1.5, 2.5, 3.5, 4.5, 5.5]\<rparr>"
  let ?w = "\<lparr>profile_file = Some \<lparr>can_read = True, can_write = True,
             content = Inr (PyDict [(''u'', Some [1, 2])])\<rparr>,
           can_create = True, writes = 1, recordings = 0\<rparr>"
  let ?f = "[0.5, 0.5, 0.5, 0.5, 0.5, 0.5, 1, 1, 1, 1, 1] :: real list"
  note spec = decision_spec [where s = "1 / 10" and t = default_threshold
      and ?f1.0 = "Some [1, 2]" and ?f2.0 = "Some [1]" and name = "''u''" and w = ?w and user = ?u
      and sc = Infinite and th = "Finite default_threshold"]
  have l: "load_profile ''u'' ?w = Inr (Some [1, 2])" by (simp add: load_profile_def dict_get_def)
  have e: "features_of (?u (recordings ?w)) = Some ?f"
    by (simp add: extract_features_def PASSWORD_def upt_rec [of _ "numeral _"])
  have c: "compare_features (Some [1, 2]) (Some ?f) = Inr Infinite"
    by (simp add: compare_features_def)
  have a: "decide (Finite (1 / 10)) (Finite default_threshold) = ACCEPT"
    using spec by (simp add: default_threshold_def)
  have b: "compare_features (Some [1, 2]) (Some [1]) = Inr Infinite"
    using spec by simp
  have r: "decide Infinite (Finite default_threshold) = REJECT" using spec by blast
  have "\<exists>v1 v2. load_profile ''u'' ?w = Inr (Some v1) \<and> features_of (?u (recordings ?w)) = Some v2
              \<and> compare_features (Some v1) (Some v2) = Inr Infinite"
    using l e c by blast
  with spec have "fst (interactive_test ''u'' (Finite default_threshold) ?u ?w)
      = Inr (if decide Infinite (Finite default_threshold) = ACCEPT
             then Access_Granted Infinite else Access_Denied Infinite)"
    by blast
  with r have d: "fst (interactive_test ''u'' (Finite default_threshold) ?u ?w)
      = Inr (Access_Denied Infinite)" by simp
  show ?thesis using a b r d by blast
qed

text \<open>
  Claim C6 as it was stated fails at the threshold \<^verbatim>\<open>float('inf')\<close>: the stored profile
  has two entries and the extracted vector eleven, the score is infinite, the test
  \<^verbatim>\<open>score <= threshold\<close> holds, and \<^verbatim>\<open>interactive_test\<close> prints
  \<^verbatim>\<open>Access Granted\<close>.
\<close>

theorem infinite_threshold_grants:
  "compare_features (Some [1, 2]) (Some [0.5, 0.5, 0.5, 0.5, 0.5, 0.5, 1, 1, 1, 1, 1])
     = Inr Infinite
   \<and> decide Infinite Infinite = ACCEPT
   \<and> fst (interactive_test ''u'' Infinite
          (\<lambda>i. \<lparr>typed = ''secret'', press_times = [0, 1, 2, 3, 4, 5],
                 release_times = [0.5, 1.5, 2.5, 3.5, 4.5, 5.5]\<rparr>)
          \<lparr>profile_file = Some \<lparr>can_read = True, can_write = True,
             content = Inr (PyDict [(''u'', Some [1, 2])])\<rparr>,
           can_create = True, writes = 1, recordings = 0\<rparr>)
        = Inr (Access_Granted Infinite)"
proof -
  let ?u = "\<lambda>i::nat. \<lparr>typed = ''secret'', press_times = [0, 1, 2, 3, 4, 5],
             release_times = [0.5, 1.5, 2.5, 3.5, 4.5, 5.5]\<rparr>"
  let ?w = "\<lparr>profile_file = Some \<lparr>can_read = True, can_write = True,
             content = Inr (PyDict [(''u'', Some [1, 2])])\<rparr>,
           can_create = True, writes = 1, recordings = 0\<rparr>"
  let ?f = "[0.5, 0.5, 0.5, 0.5, 0.5, 0.5, 1, 1, 1, 1, 1] :: real list"
  have l: "load_profile ''u'' ?w = Inr (Some [1, 2])" by (simp add: load_profile_def dict_get_def)
  have e: "features_of (?u (recordings ?w)) = Some ?f"
    by (simp add: extract_features_def PASSWORD_def upt_rec [of _ "numeral _"])
  have c: "compare_features (Some [1, 2]) (Some ?f) = Inr Infinite"
    by (simp add: compare_features_def)
  have d: "decide Infinite Infinite = ACCEPT" by (simp add: decide_def)
  have t: "fst (interactive_test ''u'' Infinite ?u ?w) = Inr (Access_Granted Infinite)"
    using interactive_test_scored [where user = ?u and w = ?w and name = "''u''" and t = Infinite
        and st = "[1, 2]" and f = ?f and sc = Infinite] l e c
    by simp
  show ?thesis using c d t by blast
qed

end
